theory Spec2Isabelle
  imports Main "HOL-Library.AList" "HOL-Library.Sublist"
begin

section \<open>The project scaffolder \<open>create_project_structure.py\<close>\<close>

text \<open>
  The script is file-system orchestration. The embedding makes the file system an explicit
  state that every function takes and returns, every exception a value \<open>Inl e\<close>, and every
  printed line a \<open>message\<close> appended to the output.

  Conventions of the model:
  \<^item> a location is the list of its path components (\<open>[]\<close> is the file-system root);
    path strings are resolved to locations by \<open>os_path_join\<close>;
  \<^item> the platform is POSIX (\<open>os.name \<noteq> "nt"\<close>, separator \<open>/\<close>), there are no symbolic
    links, and file contents are strings, read back as they were written;
  \<^item> the library functions the script calls but does not define (\<open>hashlib.sha256\<close>,
    \<open>json.load\<close>, \<open>venv.create\<close>, \<open>subprocess.run\<close>) and the working directory are the fields
    of a \<open>platform\<close> record, so every theorem holds for whatever they compute.
\<close>

subsection \<open>Errors, messages, the file system\<close>

type_synonym path = "string list"

datatype error =
    FileNotFoundError
  | IsADirectoryError
  | NotADirectoryError
  | PermissionError
  | FileExistsError
  | JSONDecodeError
  | CalledProcessError int
  | OtherError string

text \<open>The subclasses of Python's \<open>OSError\<close> among the errors above.\<close>

fun is_OSError :: "error \<Rightarrow> bool" where
  "is_OSError FileNotFoundError = True"
| "is_OSError IsADirectoryError = True"
| "is_OSError NotADirectoryError = True"
| "is_OSError PermissionError = True"
| "is_OSError FileExistsError = True"
| "is_OSError JSONDecodeError = False"
| "is_OSError (CalledProcessError rc) = False"
| "is_OSError (OtherError s) = False"

text \<open>One constructor for each \<open>print\<close> call of the script.\<close>

datatype message =
    Skipping_same path
  | Error_checking path error
  | Updating_or_creating path
  | Error_running_npm error
  | Venv_created path
  | Activate_venv path
  | Deleted_unlisted string
  | Error_deleting string error
  | Manifest_not_found
  | Remember_dependencies
  | Structure_created string path

datatype entry = File string | Dir

text \<open>
  The file system: the entries by location, and the locations at which opening for
  reading (\<open>unreadable\<close>), opening an existing file for writing (\<open>readonly\<close>) and
  \<open>os.remove\<close> (\<open>locked\<close>) are refused by the operating system.
\<close>

record fs =
  entries :: "(path \<times> entry) list"
  unreadable :: "path set"
  readonly :: "path set"
  locked :: "path set"

text \<open>
  What \<open>subprocess.run\<close> can do: the command runs and exits with a status, leaving some
  file system behind, or it cannot be started.
\<close>

datatype proc_result = Exited int fs | Spawn_error error

text \<open>
  The environment of a run. \<open>json_load\<close> is \<open>None\<close> where \<open>json.load\<close> raises its decoding
  error; a text it accepts is taken to be an array of strings, as the manifest format
  prescribes. \<open>venv_create\<close> and \<open>subprocess_run\<close> may change the file system in any way.
\<close>

record platform =
  cwd :: path
  sha256 :: "string \<Rightarrow> string"
  json_load :: "string \<Rightarrow> string list option"
  venv_create :: "path \<Rightarrow> fs \<Rightarrow> error + fs"
  subprocess_run :: "string list \<Rightarrow> path \<Rightarrow> fs \<Rightarrow> proc_result"

text \<open>The entry at a location; the file-system root is always a directory.\<close>

definition lookup :: "fs \<Rightarrow> path \<Rightarrow> entry option" where
  "lookup w p = (if p = [] then Some Dir else map_of (entries w) p)"

subsection \<open>Paths\<close>

fun split_sep :: "string \<Rightarrow> string list" where
  "split_sep [] = [[]]"
| "split_sep (c # cs) =
     (if c = CHR ''/'' then [] # split_sep cs
      else (case split_sep cs of [] \<Rightarrow> [[c]] | x # xs \<Rightarrow> (c # x) # xs))"

definition normstep :: "path \<Rightarrow> string \<Rightarrow> path" where
  "normstep acc c =
     (if c = [] \<or> c = ''.'' then acc
      else if c = ''..'' then butlast acc
      else acc @ [c])"

text \<open>
  \<open>os.path.join(base, s)\<close>, resolved to a location: an absolute \<open>s\<close> replaces \<open>base\<close>,
  empty components and \<open>.\<close> are skipped, \<open>..\<close> goes one level up.
\<close>

definition os_path_join :: "path \<Rightarrow> string \<Rightarrow> path" where
  "os_path_join base s =
     foldl normstep (if take 1 s = ''/'' then [] else base) (split_sep s)"

fun join_sep :: "string list \<Rightarrow> string" where
  "join_sep [] = []"
| "join_sep [x] = x"
| "join_sep (x # y # zs) = x @ ''/'' @ join_sep (y # zs)"

text \<open>
  \<open>os.path.relpath(path, start)\<close>: one \<open>..\<close> for each component of \<open>start\<close> past the common
  prefix, then the rest of \<open>path\<close>; \<open>.\<close> when nothing is left.
\<close>

definition relpath :: "path \<Rightarrow> path \<Rightarrow> string" where
  "relpath p start =
     (let i = length (longest_common_prefix start p);
          rel_list = replicate (length start - i) ''..'' @ drop i p
      in if rel_list = [] then ''.'' else join_sep rel_list)"

subsection \<open>Operating-system calls\<close>

text \<open>\<open>open(p, "r")\<close> followed by \<open>read()\<close>.\<close>

definition open_read :: "path \<Rightarrow> fs \<Rightarrow> error + string" where
  "open_read p w =
     (case lookup w p of
        None \<Rightarrow> Inl FileNotFoundError
      | Some Dir \<Rightarrow> Inl IsADirectoryError
      | Some (File c) \<Rightarrow> if p \<in> unreadable w then Inl PermissionError else Inr c)"

text \<open>
  \<open>open(p, "w")\<close> followed by \<open>write(c)\<close>: an existing file is replaced, a missing one is
  created when its parent directory exists. No directory is ever created.
\<close>

definition open_write :: "path \<Rightarrow> string \<Rightarrow> fs \<Rightarrow> error + fs" where
  "open_write p c w =
     (case lookup w p of
        Some Dir \<Rightarrow> Inl IsADirectoryError
      | Some (File old) \<Rightarrow>
          if p \<in> readonly w then Inl PermissionError
          else Inr (w\<lparr>entries := AList.update p (File c) (entries w)\<rparr>)
      | None \<Rightarrow>
          (case lookup w (butlast p) of
             Some Dir \<Rightarrow> Inr (w\<lparr>entries := AList.update p (File c) (entries w)\<rparr>)
           | Some (File x) \<Rightarrow> Inl NotADirectoryError
           | None \<Rightarrow> Inl FileNotFoundError))"

definition os_remove :: "path \<Rightarrow> fs \<Rightarrow> error + fs" where
  "os_remove p w =
     (case lookup w p of
        None \<Rightarrow> Inl FileNotFoundError
      | Some Dir \<Rightarrow> Inl IsADirectoryError
      | Some (File c) \<Rightarrow>
          if p \<in> locked w then Inl PermissionError
          else Inr (w\<lparr>entries := AList.delete p (entries w)\<rparr>))"

text \<open>
  \<open>os.makedirs(base/cs, exist_ok=True)\<close>, the components \<open>cs\<close> taken one at a time below
  \<open>base\<close>: an existing directory is passed through, a missing one is created, a file in
  the way raises.
\<close>

fun makedirs_from :: "path \<Rightarrow> string list \<Rightarrow> fs \<Rightarrow> error + fs" where
  "makedirs_from base [] w = Inr w"
| "makedirs_from base (c # cs) w =
     (case lookup w (base @ [c]) of
        Some (File x) \<Rightarrow> Inl (if cs = [] then FileExistsError else NotADirectoryError)
      | Some Dir \<Rightarrow> makedirs_from (base @ [c]) cs w
      | None \<Rightarrow>
          makedirs_from (base @ [c]) cs (w\<lparr>entries := entries w @ [(base @ [c], Dir)]\<rparr>))"

definition os_makedirs :: "path \<Rightarrow> fs \<Rightarrow> error + fs" where
  "os_makedirs p w = makedirs_from [] p w"

text \<open>
  The files \<open>os.walk(root_dir)\<close> yields, as full locations \<open>os.path.join(root, file)\<close>, in
  the order of the listing: every file strictly below \<open>root_dir\<close>. (In a file system where
  every file lies in existing directories these are the files the walk reaches.)
\<close>

definition os_walk_files :: "path \<Rightarrow> fs \<Rightarrow> path list" where
  "os_walk_files root_dir w =
     map fst (filter (\<lambda>(p, e). strict_prefix root_dir p \<and> lookup w p = Some e \<and> e \<noteq> Dir)
                     (entries w))"

subsection \<open>The functions of the script\<close>

definition create_file :: "platform \<Rightarrow> path \<Rightarrow> string \<Rightarrow> bool \<Rightarrow> fs \<Rightarrow> error + fs \<times> message list" where
  "create_file P filepath content overwrite w =
     (case open_read filepath w of
        Inl e \<Rightarrow> Inr (w, [Error_checking filepath e])
      | Inr existing_content \<Rightarrow>
          if overwrite \<and> sha256 P existing_content = sha256 P content
          then Inr (w, [Skipping_same filepath])
          else (case open_write filepath content w of
                  Inl e \<Rightarrow> Inl e
                | Inr w' \<Rightarrow> Inr (w', [Updating_or_creating filepath])))"

definition run_npm_command :: "platform \<Rightarrow> path \<Rightarrow> string \<Rightarrow> fs \<Rightarrow> error + fs \<times> message list" where
  "run_npm_command P project_path command w =
     (case subprocess_run P [''npm'', command] project_path w of
        Spawn_error e \<Rightarrow> Inl e
      | Exited rc w' \<Rightarrow>
          if rc = 0 then Inr (w', [])
          else Inr (w', [Error_running_npm (CalledProcessError rc)]))"

definition create_and_activate_venv :: "platform \<Rightarrow> path \<Rightarrow> fs \<Rightarrow> error + fs \<times> message list" where
  "create_and_activate_venv P project_path w =
     (let venv_dir = os_path_join project_path ''venv'' in
      case venv_create P venv_dir w of
        Inl e \<Rightarrow> Inl e
      | Inr w' \<Rightarrow>
          Inr (w', [Venv_created venv_dir,
                    Activate_venv (os_path_join (os_path_join venv_dir ''bin'') ''activate'')]))"

fun create_directories :: "path \<Rightarrow> string list \<Rightarrow> fs \<Rightarrow> error + fs" where
  "create_directories root_dir [] w = Inr w"
| "create_directories root_dir (folder # folders) w =
     (case os_makedirs (os_path_join root_dir folder) w of
        Inl e \<Rightarrow> Inl e
      | Inr w' \<Rightarrow> create_directories root_dir folders w')"

fun create_files :: "platform \<Rightarrow> path \<Rightarrow> (string \<times> string) list \<Rightarrow> bool \<Rightarrow> fs \<Rightarrow> error + fs \<times> message list" where
  "create_files P root_dir [] overwrite w = Inr (w, [])"
| "create_files P root_dir ((filepath, content) # files) overwrite w =
     (case create_file P (os_path_join root_dir filepath) content overwrite w of
        Inl e \<Rightarrow> Inl e
      | Inr (w1, out1) \<Rightarrow>
          (case create_files P root_dir files overwrite w1 of
             Inl e \<Rightarrow> Inl e
           | Inr (w2, out2) \<Rightarrow> Inr (w2, out1 @ out2)))"

text \<open>
  The two nested loops of \<open>delete_unlisted_files\<close>, run over the files of the walk; the
  handler is \<open>except OSError\<close>, so any other error would leave the loop.
\<close>

fun delete_loop :: "path \<Rightarrow> string list \<Rightarrow> path list \<Rightarrow> fs \<Rightarrow> error + fs \<times> message list" where
  "delete_loop root_dir allowed_files [] w = Inr (w, [])"
| "delete_loop root_dir allowed_files (filepath # rest) w =
     (let relative_path = relpath filepath root_dir in
      if relative_path \<notin> set allowed_files then
        (case os_remove filepath w of
           Inr w1 \<Rightarrow>
             (case delete_loop root_dir allowed_files rest w1 of
                Inl e \<Rightarrow> Inl e
              | Inr (w2, out) \<Rightarrow> Inr (w2, Deleted_unlisted relative_path # out))
         | Inl e \<Rightarrow>
             if is_OSError e then
               (case delete_loop root_dir allowed_files rest w of
                  Inl e' \<Rightarrow> Inl e'
                | Inr (w2, out) \<Rightarrow> Inr (w2, Error_deleting relative_path e # out))
             else Inl e)
      else delete_loop root_dir allowed_files rest w)"

definition delete_unlisted_files :: "path \<Rightarrow> string list \<Rightarrow> fs \<Rightarrow> error + fs \<times> message list" where
  "delete_unlisted_files root_dir allowed_files w =
     delete_loop root_dir allowed_files (os_walk_files root_dir w) w"

definition folders :: "string list" where
  "folders = [''data/raw'', ''data/processed'', ''notebooks'', ''scripts'', ''config'']"

definition files :: "(string \<times> string) list" where
  "files =
     [(''README.md'', ''# Project Title'' @ [CHR 0x0A, CHR 0x0A] @ ''Project description goes here.''),
      (''config/config.yaml'',
       ''gemini:'' @ [CHR 0x0A] @ ''  api_url: '' @ [CHR 0x27] @ ''https://api.gemini.com/v2/campaigns''
         @ [CHR 0x27, CHR 0x0A] @ ''  access_token: '' @ [CHR 0x27] @ ''YOUR_ACCESS_TOKEN'' @ [CHR 0x27])]"

definition groups :: "(string \<times> string list) list" where
  "groups =
     [(''notebooks'', [''data_analysis.ipynb'']),
      (''scripts'', [''fetch_data.py'', ''process_data.py''])]"

definition default_files_to_keep :: "string list" where
  "default_files_to_keep =
     [''README.md'',
      ''config/config.yaml'',
      ''notebooks/data_analysis.ipynb'',
      ''scripts/fetch_data.py'',
      ''scripts/process_data.py'']"

text \<open>The inner loop over the file names of one group (source lines 85 to 87).\<close>

fun create_group_files :: "platform \<Rightarrow> path \<Rightarrow> string \<Rightarrow> string list \<Rightarrow> bool \<Rightarrow> fs \<Rightarrow> error + fs \<times> message list" where
  "create_group_files P root_dir grp [] overwrite w = Inr (w, [])"
| "create_group_files P root_dir grp (filename # filenames) overwrite w =
     (let filepath = os_path_join (os_path_join root_dir grp) filename in
      case create_file P filepath (''# '' @ filename @ '' - Logic here'') overwrite w of
        Inl e \<Rightarrow> Inl e
      | Inr (w1, out1) \<Rightarrow>
          (case create_group_files P root_dir grp filenames overwrite w1 of
             Inl e \<Rightarrow> Inl e
           | Inr (w2, out2) \<Rightarrow> Inr (w2, out1 @ out2)))"

text \<open>The outer loop over the groups (source lines 81 to 87).\<close>

fun create_groups :: "platform \<Rightarrow> path \<Rightarrow> (string \<times> string list) list \<Rightarrow> bool \<Rightarrow> fs \<Rightarrow> error + fs \<times> message list" where
  "create_groups P root_dir [] overwrite w = Inr (w, [])"
| "create_groups P root_dir ((grp, filenames) # gs) overwrite w =
     (case create_group_files P root_dir grp filenames overwrite w of
        Inl e \<Rightarrow> Inl e
      | Inr (w1, out1) \<Rightarrow>
          (case create_groups P root_dir gs overwrite w1 of
             Inl e \<Rightarrow> Inl e
           | Inr (w2, out2) \<Rightarrow> Inr (w2, out1 @ out2)))"

text \<open>
  The \<open>try\<close> block that reads \<open>files_to_keep.json\<close> from the working directory (source
  lines 89 to 100): only \<open>FileNotFoundError\<close> is handled.
\<close>

definition load_files_to_keep :: "platform \<Rightarrow> fs \<Rightarrow> error + string list \<times> message list" where
  "load_files_to_keep P w =
     (case open_read (os_path_join (cwd P) ''files_to_keep.json'') w of
        Inl e \<Rightarrow>
          if e = FileNotFoundError then Inr (default_files_to_keep, [Manifest_not_found])
          else Inl e
      | Inr manifest_text \<Rightarrow>
          (case json_load P manifest_text of
             None \<Rightarrow> Inl JSONDecodeError
           | Some files_to_keep \<Rightarrow> Inr (files_to_keep, [])))"

text \<open>
  The first part of \<open>create_project_structure\<close> (source lines 67 to 87): environment,
  directories, template files.
\<close>

definition build_structure :: "platform \<Rightarrow> path \<Rightarrow> bool \<Rightarrow> fs \<Rightarrow> error + fs \<times> message list" where
  "build_structure P root_dir overwrite w =
     (case create_and_activate_venv P root_dir w of
        Inl e \<Rightarrow> Inl e
      | Inr (w1, out1) \<Rightarrow>
     (case create_directories root_dir folders w1 of
        Inl e \<Rightarrow> Inl e
      | Inr w2 \<Rightarrow>
     (case create_files P root_dir files overwrite w2 of
        Inl e \<Rightarrow> Inl e
      | Inr (w3, out3) \<Rightarrow>
     (case create_groups P root_dir groups overwrite w3 of
        Inl e \<Rightarrow> Inl e
      | Inr (w4, out4) \<Rightarrow> Inr (w4, out1 @ out3 @ out4)))))"

definition create_project_structure :: "platform \<Rightarrow> string \<Rightarrow> bool \<Rightarrow> bool \<Rightarrow> fs \<Rightarrow> error + fs \<times> message list" where
  "create_project_structure P project_name overwrite install_deps w =
     (let root_dir = os_path_join (cwd P) project_name in
      case build_structure P root_dir overwrite w of
        Inl e \<Rightarrow> Inl e
      | Inr (w4, out4) \<Rightarrow>
     (case load_files_to_keep P w4 of
        Inl e \<Rightarrow> Inl e
      | Inr (files_to_keep, out5) \<Rightarrow>
     (case delete_unlisted_files root_dir files_to_keep w4 of
        Inl e \<Rightarrow> Inl e
      | Inr (w6, out6) \<Rightarrow>
          Inr (w6, out4 @ out5 @ out6
                   @ (if install_deps then [Remember_dependencies] else [])
                   @ [Structure_created project_name root_dir]))))"

subsection \<open>A concrete platform and file systems for the examples\<close>

text \<open>
  A small stand-in for \<open>venv.create\<close>: it makes \<open>venv_dir/bin\<close> and writes two files. The
  digest of the example platform is the identity (so it has no collisions), its JSON
  reader accepts the empty array only, and its package manager exits with status 1.
\<close>

definition demo_venv_create :: "path \<Rightarrow> fs \<Rightarrow> error + fs" where
  "demo_venv_create venv_dir w =
     (case os_makedirs (venv_dir @ [''bin'']) w of
        Inl e \<Rightarrow> Inl e
      | Inr w1 \<Rightarrow>
          (case open_write (venv_dir @ [''pyvenv.cfg'']) ''version = 3'' w1 of
             Inl e \<Rightarrow> Inl e
           | Inr w2 \<Rightarrow> open_write (venv_dir @ [''bin'', ''activate'']) ''# activate'' w2))"

definition demo_platform :: platform where
  "demo_platform =
     \<lparr>cwd = [''home'', ''user''],
      sha256 = (\<lambda>s. s),
      json_load = (\<lambda>s. if s = ''[]'' then Some [] else None),
      venv_create = demo_venv_create,
      subprocess_run = (\<lambda>args dir w. Exited 1 w)\<rparr>"

text \<open>An empty working directory \<open>/home/user\<close>.\<close>

definition demo_empty :: fs where
  "demo_empty =
     \<lparr>entries = [([''home''], Dir), ([''home'', ''user''], Dir)],
      unreadable = {}, readonly = {}, locked = {}\<rparr>"

text \<open>
  A project \<open>/home/user/myapp\<close> that already holds an edited \<open>README.md\<close>, a stray
  \<open>notes.txt\<close>, a \<open>scripts\<close> directory with the listed \<open>fetch_data.py\<close> and an unlisted
  \<open>old.py\<close>, and an empty directory \<open>data/raw\<close>.
\<close>

definition demo_project :: fs where
  "demo_project =
     \<lparr>entries =
        [([''home''], Dir), ([''home'', ''user''], Dir),
         ([''home'', ''user'', ''myapp''], Dir),
         ([''home'', ''user'', ''myapp'', ''README.md''], File ''my notes''),
         ([''home'', ''user'', ''myapp'', ''notes.txt''], File ''scratch''),
         ([''home'', ''user'', ''myapp'', ''scripts''], Dir),
         ([''home'', ''user'', ''myapp'', ''scripts'', ''fetch_data.py''], File ''import os''),
         ([''home'', ''user'', ''myapp'', ''scripts'', ''old.py''], File ''pass''),
         ([''home'', ''user'', ''myapp'', ''data''], Dir),
         ([''home'', ''user'', ''myapp'', ''data'', ''raw''], Dir)],
      unreadable = {}, readonly = {}, locked = {}\<rparr>"

definition demo_root :: path where
  "demo_root = [''home'', ''user'', ''myapp'']"

text \<open>The same project with \<open>notes.txt\<close> protected against deletion.\<close>

definition demo_locked :: fs where
  "demo_locked = demo_project\<lparr>locked := {[''home'', ''user'', ''myapp'', ''notes.txt'']}\<rparr>"

text \<open>
  The empty working directory with a manifest that is not valid JSON (the array is not
  closed and the string is not quoted).
\<close>

definition demo_bad_manifest :: fs where
  "demo_bad_manifest =
     \<lparr>entries = [([''home''], Dir), ([''home'', ''user''], Dir),
                 ([''home'', ''user'', ''files_to_keep.json''], File ''[README.md'')],
      unreadable = {}, readonly = {}, locked = {}\<rparr>"

subsection \<open>An auxiliary set for the proofs about pruning\<close>

text \<open>The files of \<open>ps\<close> that the loop removes: unlisted, present, and not locked.\<close>

definition removed :: "path \<Rightarrow> string list \<Rightarrow> path list \<Rightarrow> fs \<Rightarrow> path set" where
  "removed root_dir allowed_files ps w =
     {p. p \<in> set ps \<and> relpath p root_dir \<notin> set allowed_files \<and> p \<notin> locked w \<and>
         (\<exists>c. lookup w p = Some (File c))}"

section \<open>Verification\<close>

subsection \<open>Facts about paths\<close>





subsection \<open>Facts about the operating-system calls\<close>

lemma lookup_delete:
  "lookup (w\<lparr>entries := AList.delete p (entries w)\<rparr>) q =
     (if q = p \<and> q \<noteq> [] then None else lookup w q)"
  by (simp add: lookup_def AList.delete_conv')


lemma lookup_File_nonempty: "lookup w p = Some (File c) \<Longrightarrow> p \<noteq> []"
  by (auto simp: lookup_def)

lemma os_remove_Inr:
  "os_remove p w = Inr w' \<longleftrightarrow>
     (\<exists>c. lookup w p = Some (File c)) \<and> p \<notin> locked w \<and>
     w' = w\<lparr>entries := AList.delete p (entries w)\<rparr>"
  by (auto simp: os_remove_def split: option.splits entry.splits)

lemma os_remove_Inl_OSError: "os_remove p w = Inl e \<Longrightarrow> is_OSError e"
  by (auto simp: os_remove_def split: option.splits entry.splits if_splits)

lemma os_remove_locked:
  "lookup w p = Some (File c) \<Longrightarrow> p \<in> locked w \<Longrightarrow> os_remove p w = Inl PermissionError"
  by (simp add: os_remove_def)

lemma os_walk_files_iff:
  "p \<in> set (os_walk_files root_dir w) \<longleftrightarrow>
     strict_prefix root_dir p \<and> (\<exists>c. lookup w p = Some (File c))"
proof
  assume "p \<in> set (os_walk_files root_dir w)"
  then obtain e where "strict_prefix root_dir p" "lookup w p = Some e" "e \<noteq> Dir"
    by (auto simp: os_walk_files_def)
  then show "strict_prefix root_dir p \<and> (\<exists>c. lookup w p = Some (File c))"
    by (cases e) auto
next
  assume a: "strict_prefix root_dir p \<and> (\<exists>c. lookup w p = Some (File c))"
  then obtain c where c: "lookup w p = Some (File c)" by blast
  then have "p \<noteq> []" by (rule lookup_File_nonempty)
  with c have "map_of (entries w) p = Some (File c)" by (simp add: lookup_def)
  then have "(p, File c) \<in> set (entries w)" by (rule map_of_SomeD)
  with a c show "p \<in> set (os_walk_files root_dir w)"
    by (force simp: os_walk_files_def)
qed

lemma open_read_Inr:
  "open_read p w = Inr c \<longleftrightarrow> lookup w p = Some (File c) \<and> p \<notin> unreadable w"
  by (auto simp: open_read_def split: option.splits entry.splits)

subsection \<open>The template writer\<close>

text \<open>What \<open>create_file\<close> does in each of its three situations, for any platform.\<close>

lemma create_file_missing:
  "lookup w filepath = None \<Longrightarrow>
   create_file P filepath content overwrite w
     = Inr (w, [Error_checking filepath FileNotFoundError])"
  by (simp add: create_file_def open_read_def)

lemma create_file_unreadable:
  "open_read filepath w = Inl e \<Longrightarrow>
   create_file P filepath content overwrite w = Inr (w, [Error_checking filepath e])"
  by (simp add: create_file_def)

lemma create_file_no_overwrite:
  assumes "open_read filepath w = Inr existing_content" and "filepath \<notin> readonly w"
  shows "create_file P filepath content False w
     = Inr (w\<lparr>entries := AList.update filepath (File content) (entries w)\<rparr>,
            [Updating_or_creating filepath])"
proof -
  from assms(1) have "lookup w filepath = Some (File existing_content)"
    by (simp add: open_read_Inr)
  with assms(2) have "open_write filepath content w
      = Inr (w\<lparr>entries := AList.update filepath (File content) (entries w)\<rparr>)"
    by (simp add: open_write_def)
  with assms(1) show ?thesis by (simp add: create_file_def)
qed

text \<open>
  Claim C1, evaluated on the code. The claim says that a target that does not exist is
  created with the template text. In the code the \<open>open(filepath, "r")\<close> of a missing file
  raises, the handler prints and returns, and nothing is written: \<open>create_file\<close> on a missing
  \<open>README.md\<close> returns the file system unchanged, and after a first run of the scaffolder
  in an empty directory none of the five template files exists.
\<close>

theorem missing_file_is_not_created:
  "create_file demo_platform [''home'', ''user'', ''myapp'', ''README.md'']
      ''# Project Title'' False demo_empty
     = Inr (demo_empty, [Error_checking [''home'', ''user'', ''myapp'', ''README.md''] FileNotFoundError]) \<and>
   map_sum id (\<lambda>(w', out). (map (lookup w')
        [[''home'', ''user'', ''myapp'', ''README.md''],
         [''home'', ''user'', ''myapp'', ''config'', ''config.yaml''],
         [''home'', ''user'', ''myapp'', ''notebooks'', ''data_analysis.ipynb''],
         [''home'', ''user'', ''myapp'', ''scripts'', ''fetch_data.py''],
         [''home'', ''user'', ''myapp'', ''scripts'', ''process_data.py'']], out))
     (create_project_structure demo_platform ''myapp'' False True demo_empty)
     = Inr ([None, None, None, None, None],
        [Venv_created [''home'', ''user'', ''myapp'', ''venv''],
         Activate_venv [''home'', ''user'', ''myapp'', ''venv'', ''bin'', ''activate''],
         Error_checking [''home'', ''user'', ''myapp'', ''README.md''] FileNotFoundError,
         Error_checking [''home'', ''user'', ''myapp'', ''config'', ''config.yaml''] FileNotFoundError,
         Error_checking [''home'', ''user'', ''myapp'', ''notebooks'', ''data_analysis.ipynb'']
           FileNotFoundError,
         Error_checking [''home'', ''user'', ''myapp'', ''scripts'', ''fetch_data.py'']
           FileNotFoundError,
         Error_checking [''home'', ''user'', ''myapp'', ''scripts'', ''process_data.py'']
           FileNotFoundError,
         Manifest_not_found,
         Deleted_unlisted ''venv/pyvenv.cfg'',
         Deleted_unlisted ''venv/bin/activate'',
         Remember_dependencies,
         Structure_created ''myapp'' [''home'', ''user'', ''myapp'']])"
  by code_simp

text \<open>
  Claim C2, evaluated on the code. The claim says that with \<open>overwrite=False\<close> an existing
  file keeps its content. In the code the hash comparison and its \<open>return\<close> are inside
  \<open>if overwrite\<close>, so with \<open>overwrite=False\<close> control falls through to the write: the edited
  \<open>README.md\<close> of the example project is replaced by the template text.
\<close>

theorem overwrite_false_rewrites_existing_file:
  "lookup demo_project [''home'', ''user'', ''myapp'', ''README.md''] = Some (File ''my notes'') \<and>
   map_sum id (\<lambda>(w', out). (lookup w' [''home'', ''user'', ''myapp'', ''README.md''], out))
     (create_file demo_platform [''home'', ''user'', ''myapp'', ''README.md'']
        ''# Project Title'' False demo_project)
     = Inr (Some (File ''# Project Title''),
            [Updating_or_creating [''home'', ''user'', ''myapp'', ''README.md'']])"
  by code_simp



subsection \<open>The deletion loop\<close>


lemma delete_loop_result:
  "\<exists>w' out. delete_loop root_dir allowed_files ps w = Inr (w', out) \<and>
      unreadable w' = unreadable w \<and> readonly w' = readonly w \<and> locked w' = locked w \<and>
      (\<forall>q. lookup w' q = (if q \<in> removed root_dir allowed_files ps w then None else lookup w q))"
proof (induction ps arbitrary: w)
  case Nil
  then show ?case by (simp add: removed_def)
next
  case (Cons p ps)
  show ?case
  proof (cases "relpath p root_dir \<in> set allowed_files")
    case True
    with Cons.IH [of w] show ?thesis
      by (auto simp: removed_def)
  next
    case False
    show ?thesis
    proof (cases "os_remove p w")
      case (Inl e)
      then have os: "is_OSError e" by (rule os_remove_Inl_OSError)
      from Inl have nr: "\<not> (p \<notin> locked w \<and> (\<exists>c. lookup w p = Some (File c)))"
        by (auto simp: os_remove_def split: option.splits entry.splits if_splits)
      from Cons.IH [of w] obtain w' out where
        "delete_loop root_dir allowed_files ps w = Inr (w', out)"
        "unreadable w' = unreadable w" "readonly w' = readonly w" "locked w' = locked w"
        "\<forall>q. lookup w' q = (if q \<in> removed root_dir allowed_files ps w then None else lookup w q)"
        by blast
      moreover have "removed root_dir allowed_files (p # ps) w = removed root_dir allowed_files ps w"
        using nr by (auto simp: removed_def)
      ultimately show ?thesis using False Inl os by simp
    next
      case (Inr w1)
      then have w1: "w1 = w\<lparr>entries := AList.delete p (entries w)\<rparr>"
        and pf: "\<exists>c. lookup w p = Some (File c)" and pl: "p \<notin> locked w"
        by (auto simp: os_remove_Inr)
      from pf have pne: "p \<noteq> []" by (auto simp: lookup_def)
      have lk: "\<And>q. lookup w1 q = (if q = p then None else lookup w q)"
        using pne by (simp add: w1 lookup_delete)
      have fr: "unreadable w1 = unreadable w" "readonly w1 = readonly w" "locked w1 = locked w"
        by (simp_all add: w1)
      from Cons.IH [of w1] obtain w' out where r:
        "delete_loop root_dir allowed_files ps w1 = Inr (w', out)"
        "unreadable w' = unreadable w1" "readonly w' = readonly w1" "locked w' = locked w1"
        "\<forall>q. lookup w' q = (if q \<in> removed root_dir allowed_files ps w1 then None else lookup w1 q)"
        by blast
      have "\<And>q. (if q \<in> removed root_dir allowed_files ps w1 then None else lookup w1 q)
              = (if q \<in> removed root_dir allowed_files (p # ps) w then None else lookup w q)"
        using pf pl False by (auto simp: removed_def lk fr)
      with r fr show ?thesis using False Inr by simp
    qed
  qed
qed

text \<open>What the loop prints for a file of the walk that is not listed.\<close>

lemma delete_loop_output:
  assumes "delete_loop root_dir allowed_files ps w = Inr (w', out)"
    and "p \<in> set ps" and "relpath p root_dir \<notin> set allowed_files"
    and "lookup w p = Some (File c)"
  shows "if p \<in> locked w
         then Error_deleting (relpath p root_dir) PermissionError \<in> set out
         else Deleted_unlisted (relpath p root_dir) \<in> set out"
  using assms
proof (induction ps arbitrary: w out)
  case Nil
  then show ?case by simp
next
  case (Cons x ps)
  show ?case
  proof (cases "relpath x root_dir \<in> set allowed_files")
    case True
    with Cons.prems have "delete_loop root_dir allowed_files ps w = Inr (w', out)" "p \<in> set ps"
      by auto
    with Cons.IH [of w out] Cons.prems show ?thesis by simp
  next
    case False
    show ?thesis
    proof (cases "os_remove x w")
      case (Inl e)
      then have os: "is_OSError e" by (rule os_remove_Inl_OSError)
      with Cons.prems(1) False Inl obtain out1 where
        r: "delete_loop root_dir allowed_files ps w = Inr (w', out1)"
        and o: "out = Error_deleting (relpath x root_dir) e # out1"
        by (auto split: sum.splits)
      show ?thesis
      proof (cases "p = x")
        case True
        with Inl Cons.prems(4) have "p \<in> locked w \<and> e = PermissionError"
          by (auto simp: os_remove_def split: if_splits)
        with o True show ?thesis by simp
      next
        case False
        with Cons.prems have "p \<in> set ps" by simp
        from Cons.IH [OF r this Cons.prems(3) Cons.prems(4)] o show ?thesis by auto
      qed
    next
      case (Inr w1)
      then have w1: "w1 = w\<lparr>entries := AList.delete x (entries w)\<rparr>"
        and xf: "\<exists>c. lookup w x = Some (File c)" and xl: "x \<notin> locked w"
        by (auto simp: os_remove_Inr)
      from Cons.prems(1) False Inr obtain out1 where
        r: "delete_loop root_dir allowed_files ps w1 = Inr (w', out1)"
        and o: "out = Deleted_unlisted (relpath x root_dir) # out1"
        by (auto split: sum.splits)
      show ?thesis
      proof (cases "p = x")
        case True
        with xl o show ?thesis by simp
      next
        case False
        with Cons.prems have ps: "p \<in> set ps" by simp
        have lk: "lookup w1 p = Some (File c)" "locked w1 = locked w"
          using False Cons.prems(4) by (simp_all add: w1 lookup_delete)
        from Cons.IH [OF r ps Cons.prems(3) lk(1)] o lk(2) show ?thesis by auto
      qed
    qed
  qed
qed

lemma delete_unlisted_files_result:
  "\<exists>w' out. delete_unlisted_files root_dir allowed_files w = Inr (w', out) \<and>
      unreadable w' = unreadable w \<and> readonly w' = readonly w \<and> locked w' = locked w \<and>
      (\<forall>q. lookup w' q =
         (if strict_prefix root_dir q \<and> relpath q root_dir \<notin> set allowed_files \<and> q \<notin> locked w \<and>
             (\<exists>c. lookup w q = Some (File c))
          then None else lookup w q))"
  using delete_loop_result [of root_dir allowed_files "os_walk_files root_dir w" w]
  by (auto simp: delete_unlisted_files_def removed_def os_walk_files_iff)


subsection \<open>Pruning\<close>



text \<open>
  Claim C7. Pruning always returns: a refused deletion is caught at that file. Every
  unlisted file of the walk whose deletion is refused stays as it was and has its error
  printed, and every other unlisted file of the walk is deleted and reported, whatever
  happened at the files before it.
\<close>

theorem deletion_failure_is_caught:
  "\<exists>w' out. delete_unlisted_files root_dir allowed_files w = Inr (w', out) \<and>
     (\<forall>p \<in> set (os_walk_files root_dir w). relpath p root_dir \<notin> set allowed_files \<longrightarrow>
        (if p \<in> locked w
         then lookup w' p = lookup w p \<and>
              Error_deleting (relpath p root_dir) PermissionError \<in> set out
         else lookup w' p = None \<and> Deleted_unlisted (relpath p root_dir) \<in> set out))"
proof -
  from delete_unlisted_files_result [of root_dir allowed_files w] obtain w' out where
    r: "delete_unlisted_files root_dir allowed_files w = Inr (w', out)"
    and lk: "\<And>q. lookup w' q =
         (if strict_prefix root_dir q \<and> relpath q root_dir \<notin> set allowed_files \<and> q \<notin> locked w \<and>
             (\<exists>c. lookup w q = Some (File c))
          then None else lookup w q)"
    by blast
  from r have loop: "delete_loop root_dir allowed_files (os_walk_files root_dir w) w = Inr (w', out)"
    by (simp add: delete_unlisted_files_def)
  have "if p \<in> locked w
         then lookup w' p = lookup w p \<and>
              Error_deleting (relpath p root_dir) PermissionError \<in> set out
         else lookup w' p = None \<and> Deleted_unlisted (relpath p root_dir) \<in> set out"
    if p: "p \<in> set (os_walk_files root_dir w)" and n: "relpath p root_dir \<notin> set allowed_files" for p
  proof -
    from p obtain c where sp: "strict_prefix root_dir p" and f: "lookup w p = Some (File c)"
      by (auto simp: os_walk_files_iff)
    from delete_loop_output [OF loop p n f] lk [of p] sp n f show ?thesis
      by (auto split: if_splits)
  qed
  with r show ?thesis by blast
qed

theorem deletion_failure_is_caught_witness:
  "\<exists>w' out. delete_unlisted_files demo_root default_files_to_keep demo_locked = Inr (w', out) \<and>
     lookup w' [''home'', ''user'', ''myapp'', ''notes.txt''] = Some (File ''scratch'') \<and>
     Error_deleting ''notes.txt'' PermissionError \<in> set out \<and>
     lookup w' [''home'', ''user'', ''myapp'', ''scripts'', ''old.py''] = None \<and>
     Deleted_unlisted ''scripts/old.py'' \<in> set out"
proof -
  let ?notes = "[''home'', ''user'', ''myapp'', ''notes.txt'']"
  let ?old = "[''home'', ''user'', ''myapp'', ''scripts'', ''old.py'']"
  have walk: "?notes \<in> set (os_walk_files demo_root demo_locked)"
    "?old \<in> set (os_walk_files demo_root demo_locked)"
    by (simp_all add: os_walk_files_def demo_root_def demo_locked_def demo_project_def lookup_def)
  have rel: "relpath ?notes demo_root = ''notes.txt''" "relpath ?old demo_root = ''scripts/old.py''"
    by (simp_all add: relpath_def demo_root_def)
  have unlisted: "''notes.txt'' \<notin> set default_files_to_keep"
    "''scripts/old.py'' \<notin> set default_files_to_keep"
    by (simp_all add: default_files_to_keep_def)
  have st: "?notes \<in> locked demo_locked" "?old \<notin> locked demo_locked"
    "lookup demo_locked ?notes = Some (File ''scratch'')"
    by (simp_all add: demo_locked_def demo_project_def lookup_def)
  from deletion_failure_is_caught [of demo_root default_files_to_keep demo_locked]
  obtain w' out where
    r: "delete_unlisted_files demo_root default_files_to_keep demo_locked = Inr (w', out)"
    and a: "\<forall>p \<in> set (os_walk_files demo_root demo_locked).
        relpath p demo_root \<notin> set default_files_to_keep \<longrightarrow>
        (if p \<in> locked demo_locked
         then lookup w' p = lookup demo_locked p \<and>
              Error_deleting (relpath p demo_root) PermissionError \<in> set out
         else lookup w' p = None \<and> Deleted_unlisted (relpath p demo_root) \<in> set out)"
    by blast
  from a walk(1) rel(1) unlisted(1) st have
    "lookup w' ?notes = Some (File ''scratch'') \<and> Error_deleting ''notes.txt'' PermissionError \<in> set out"
    by (auto split: if_splits)
  moreover from a walk(2) rel(2) unlisted(2) st have
    "lookup w' ?old = None \<and> Deleted_unlisted ''scripts/old.py'' \<in> set out"
    by (auto split: if_splits)
  ultimately show ?thesis using r by blast
qed

text \<open>
  Claim C10. Pruning returns, and every location that was a directory before is a
  directory afterwards, whatever the allow-list is.
\<close>

theorem pruning_keeps_directories:
  "\<exists>w' out. delete_unlisted_files root_dir allowed_files w = Inr (w', out) \<and>
     (\<forall>p. lookup w p = Some Dir \<longrightarrow> lookup w' p = Some Dir)"
proof -
  from delete_unlisted_files_result [of root_dir allowed_files w] obtain w' out where
    r: "delete_unlisted_files root_dir allowed_files w = Inr (w', out)"
    and lk: "\<And>q. lookup w' q =
         (if strict_prefix root_dir q \<and> relpath q root_dir \<notin> set allowed_files \<and> q \<notin> locked w \<and>
             (\<exists>c. lookup w q = Some (File c))
          then None else lookup w q)"
    by blast
  have "lookup w' p = Some Dir" if "lookup w p = Some Dir" for p
    using that lk [of p] by simp
  with r show ?thesis by blast
qed

theorem pruning_keeps_directories_witness:
  "lookup demo_project [''home'', ''user'', ''myapp'', ''data'', ''raw''] = Some Dir \<and>
   (\<exists>w' out. delete_unlisted_files demo_root [] demo_project = Inr (w', out) \<and>
      lookup w' [''home'', ''user'', ''myapp'', ''data'', ''raw''] = Some Dir)"
proof -
  have h: "lookup demo_project [''home'', ''user'', ''myapp'', ''data'', ''raw''] = Some Dir"
    by (simp add: demo_project_def lookup_def)
  from pruning_keeps_directories [of demo_root "[]" demo_project] h show ?thesis by blast
qed

subsection \<open>The main flow\<close>

lemma load_files_to_keep_missing:
  "lookup w (os_path_join (cwd P) ''files_to_keep.json'') = None \<Longrightarrow>
   load_files_to_keep P w = Inr (default_files_to_keep, [Manifest_not_found])"
  by (simp add: load_files_to_keep_def open_read_def)

text \<open>
  Claim C6. Let the steps before the manifest is read succeed. If \<open>files_to_keep.json\<close> is
  missing from the working directory, the loader prints its warning and yields the five
  default paths, and the run goes on to prune with them and returns. If the file is
  readable and \<open>json.load\<close> rejects its text, the loader raises the decoding error and the
  whole run ends with it.
\<close>

theorem manifest_missing_or_malformed:
  assumes "build_structure P (os_path_join (cwd P) project_name) overwrite w = Inr (w4, out4)"
  shows "(lookup w4 (os_path_join (cwd P) ''files_to_keep.json'') = None \<longrightarrow>
            load_files_to_keep P w4
              = Inr ([''README.md'', ''config/config.yaml'', ''notebooks/data_analysis.ipynb'',
                      ''scripts/fetch_data.py'', ''scripts/process_data.py''],
                     [Manifest_not_found]) \<and>
            (\<exists>w' out6.
               delete_unlisted_files (os_path_join (cwd P) project_name)
                 [''README.md'', ''config/config.yaml'', ''notebooks/data_analysis.ipynb'',
                  ''scripts/fetch_data.py'', ''scripts/process_data.py''] w4 = Inr (w', out6) \<and>
               create_project_structure P project_name overwrite install_deps w
                 = Inr (w', out4 @ [Manifest_not_found] @ out6
                            @ (if install_deps then [Remember_dependencies] else [])
                            @ [Structure_created project_name (os_path_join (cwd P) project_name)]))) \<and>
         (\<forall>manifest_text.
            open_read (os_path_join (cwd P) ''files_to_keep.json'') w4 = Inr manifest_text \<and>
            json_load P manifest_text = None \<longrightarrow>
            load_files_to_keep P w4 = Inl JSONDecodeError \<and>
            create_project_structure P project_name overwrite install_deps w = Inl JSONDecodeError)"
proof (intro conjI impI allI)
  assume m: "lookup w4 (os_path_join (cwd P) ''files_to_keep.json'') = None"
  then show l: "load_files_to_keep P w4
      = Inr ([''README.md'', ''config/config.yaml'', ''notebooks/data_analysis.ipynb'',
              ''scripts/fetch_data.py'', ''scripts/process_data.py''], [Manifest_not_found])"
    by (simp add: load_files_to_keep_missing default_files_to_keep_def)
  from delete_unlisted_files_result obtain w' out6 where
    "delete_unlisted_files (os_path_join (cwd P) project_name)
       [''README.md'', ''config/config.yaml'', ''notebooks/data_analysis.ipynb'',
        ''scripts/fetch_data.py'', ''scripts/process_data.py''] w4 = Inr (w', out6)"
    by blast
  with assms l show "\<exists>w' out6.
       delete_unlisted_files (os_path_join (cwd P) project_name)
         [''README.md'', ''config/config.yaml'', ''notebooks/data_analysis.ipynb'',
          ''scripts/fetch_data.py'', ''scripts/process_data.py''] w4 = Inr (w', out6) \<and>
       create_project_structure P project_name overwrite install_deps w
         = Inr (w', out4 @ [Manifest_not_found] @ out6
                    @ (if install_deps then [Remember_dependencies] else [])
                    @ [Structure_created project_name (os_path_join (cwd P) project_name)])"
    by (simp add: create_project_structure_def)
next
  fix manifest_text
  assume a: "open_read (os_path_join (cwd P) ''files_to_keep.json'') w4 = Inr manifest_text \<and>
             json_load P manifest_text = None"
  then show l: "load_files_to_keep P w4 = Inl JSONDecodeError"
    by (simp add: load_files_to_keep_def)
  with assms show "create_project_structure P project_name overwrite install_deps w = Inl JSONDecodeError"
    by (simp add: create_project_structure_def)
qed

theorem manifest_missing_or_malformed_witness:
  "(\<exists>w' out. create_project_structure demo_platform ''myapp'' False True demo_empty = Inr (w', out) \<and>
       Manifest_not_found \<in> set out) \<and>
   json_load demo_platform ''[README.md'' = None \<and>
   create_project_structure demo_platform ''myapp'' False True demo_bad_manifest = Inl JSONDecodeError"
proof -
  have "case build_structure demo_platform (os_path_join (cwd demo_platform) ''myapp'') False demo_empty of
          Inl e \<Rightarrow> False
        | Inr (w4, out4) \<Rightarrow>
            lookup w4 (os_path_join (cwd demo_platform) ''files_to_keep.json'') = None"
    by code_simp
  then obtain w4 out4 where
    b: "build_structure demo_platform (os_path_join (cwd demo_platform) ''myapp'') False demo_empty
          = Inr (w4, out4)"
    and m: "lookup w4 (os_path_join (cwd demo_platform) ''files_to_keep.json'') = None"
    by (auto split: sum.splits)
  from manifest_missing_or_malformed [OF b, of True] m
  have first: "\<exists>w' out. create_project_structure demo_platform ''myapp'' False True demo_empty
      = Inr (w', out) \<and> Manifest_not_found \<in> set out"
    by auto
  have "case build_structure demo_platform (os_path_join (cwd demo_platform) ''myapp'') False
               demo_bad_manifest of
          Inl e \<Rightarrow> False
        | Inr (w4, out4) \<Rightarrow>
            open_read (os_path_join (cwd demo_platform) ''files_to_keep.json'') w4 = Inr ''[README.md''"
    by code_simp
  then obtain w5 out5 where
    b': "build_structure demo_platform (os_path_join (cwd demo_platform) ''myapp'') False
           demo_bad_manifest = Inr (w5, out5)"
    and r: "open_read (os_path_join (cwd demo_platform) ''files_to_keep.json'') w5 = Inr ''[README.md''"
    by (auto split: sum.splits)
  have j: "json_load demo_platform ''[README.md'' = None"
    by (simp add: demo_platform_def)
  from manifest_missing_or_malformed [OF b', of True] r j
  have "create_project_structure demo_platform ''myapp'' False True demo_bad_manifest
      = Inl JSONDecodeError"
    by blast
  with first j show ?thesis by blast
qed



text \<open>
  Claim C9. Two runs that differ only in \<open>install_deps\<close> end with the same error or with
  the same file system; the run with \<open>install_deps\<close> true prints one more line, the
  reminder, just before the last line.
\<close>

theorem install_deps_is_cosmetic:
  "map_sum id fst (create_project_structure P project_name overwrite True w)
     = map_sum id fst (create_project_structure P project_name overwrite False w) \<and>
   create_project_structure P project_name overwrite True w
     = (case create_project_structure P project_name overwrite False w of
          Inl e \<Rightarrow> Inl e
        | Inr (w', out) \<Rightarrow> Inr (w', butlast out @ [Remember_dependencies, last out]))"
  by (simp add: create_project_structure_def Let_def butlast_append split: sum.splits prod.splits)

text \<open>The main flow does not depend on what \<open>subprocess.run\<close> would do.\<close>

lemma create_file_subprocess [simp]:
  "create_file (P\<lparr>subprocess_run := r\<rparr>) filepath content overwrite w
     = create_file P filepath content overwrite w"
  by (simp add: create_file_def split: sum.splits)

lemma create_files_subprocess [simp]:
  "create_files (P\<lparr>subprocess_run := r\<rparr>) root_dir fs overwrite w
     = create_files P root_dir fs overwrite w"
  by (induction fs arbitrary: w) (auto split: sum.splits)

lemma create_group_files_subprocess [simp]:
  "create_group_files (P\<lparr>subprocess_run := r\<rparr>) root_dir grp filenames overwrite w
     = create_group_files P root_dir grp filenames overwrite w"
  by (induction filenames arbitrary: w) (auto split: sum.splits)

lemma create_groups_subprocess [simp]:
  "create_groups (P\<lparr>subprocess_run := r\<rparr>) root_dir gs overwrite w
     = create_groups P root_dir gs overwrite w"
  by (induction gs arbitrary: w) (auto split: sum.splits)

lemma build_structure_subprocess [simp]:
  "build_structure (P\<lparr>subprocess_run := r\<rparr>) root_dir overwrite w
     = build_structure P root_dir overwrite w"
  by (simp add: build_structure_def create_and_activate_venv_def Let_def split: sum.splits prod.splits)

lemma load_files_to_keep_subprocess [simp]:
  "load_files_to_keep (P\<lparr>subprocess_run := r\<rparr>) w = load_files_to_keep P w"
  by (simp add: load_files_to_keep_def split: sum.splits)

text \<open>
  Claim C8 as stated fails: the claim says that a non-zero exit of the package manager
  aborts the process, but the \<open>CalledProcessError\<close> is caught inside \<open>run_npm_command\<close>. With
  a package manager that exits with status 1 the function returns normally, having
  printed the error.
\<close>

theorem npm_nonzero_exit_returns_normally:
  "subprocess_run demo_platform [''npm'', ''install''] demo_root demo_project = Exited 1 demo_project \<and>
   run_npm_command demo_platform demo_root ''install'' demo_project
     = Inr (demo_project, [Error_running_npm (CalledProcessError 1)])"
  by (simp add: run_npm_command_def demo_platform_def)

text \<open>
  Claim C8, amended. Whenever the package manager runs and exits, with any status,
  \<open>run_npm_command\<close> returns normally, and a non-zero status is printed as an error. The
  main flow never calls it: its result is the same whatever \<open>subprocess.run\<close> does.
\<close>

theorem npm_failure_is_caught_and_npm_is_unused:
  "(\<forall>rc w'. subprocess_run P [''npm'', command] project_path w = Exited rc w' \<longrightarrow>
      run_npm_command P project_path command w
        = Inr (w', if rc = 0 then [] else [Error_running_npm (CalledProcessError rc)])) \<and>
   create_project_structure (P\<lparr>subprocess_run := r\<rparr>) project_name overwrite install_deps w0
     = create_project_structure P project_name overwrite install_deps w0"
  by (simp add: run_npm_command_def create_project_structure_def Let_def split: sum.splits prod.splits)

theorem npm_failure_is_caught_and_npm_is_unused_witness:
  "subprocess_run demo_platform [''npm'', ''test''] demo_root demo_empty = Exited 1 demo_empty \<and>
   run_npm_command demo_platform demo_root ''test'' demo_empty
     = Inr (demo_empty, [Error_running_npm (CalledProcessError 1)]) \<and>
   create_project_structure (demo_platform\<lparr>subprocess_run := \<lambda>args dir w. Spawn_error FileNotFoundError\<rparr>)
       ''myapp'' False True demo_empty
     = create_project_structure demo_platform ''myapp'' False True demo_empty"
proof -
  have h: "subprocess_run demo_platform [''npm'', ''test''] demo_root demo_empty = Exited 1 demo_empty"
    by (simp add: demo_platform_def)
  from npm_failure_is_caught_and_npm_is_unused
    [of demo_platform "''test''" demo_root demo_empty "\<lambda>args dir w. Spawn_error FileNotFoundError"
        "''myapp''" False True demo_empty] h
  show ?thesis by simp
qed

end
